theory Spec2Isabelle
  imports Main "HOL-Library.Word"
begin

unbundle bit_operations_syntax

section \<open>The command table\<close>

text \<open>
  The embedding follows \<^verbatim>\<open>client/python3/client.py\<close>. The class
  \<^verbatim>\<open>Arduino8088Client.Command\<close> is an \<^verbatim>\<open>Enum\<close> whose member values are pairs
  (opcode, length of the outbound payload).
\<close>

datatype Command =
    CmdNone
  | CmdVersion
  | CmdReset
  | CmdLoad
  | CmdCycle
  | CmdReadAddress
  | CmdReadStatus
  | CmdRead8288Command
  | CmdRead8288Control
  | CmdReadDataBus
  | CmdWriteDataBus
  | CmdFinalize
  | CmdBeginStore
  | CmdStore
  | CmdQueueLen
  | CmdQueueBytes
  | CmdWritePin
  | CmdReadPin
  | CmdGetProgramState
  | CmdLastError
  | CmdGetCycleStatus
  | CmdInvalid

text \<open>\<^verbatim>\<open>command.value\<close>: the pair written in the class body.\<close>

fun command_value :: "Command \<Rightarrow> int \<times> int" where
  "command_value CmdNone = (0x00, 0)"
| "command_value CmdVersion = (0x01, 0)"
| "command_value CmdReset = (0x02, 0)"
| "command_value CmdLoad = (0x03, 28)"
| "command_value CmdCycle = (0x04, 0)"
| "command_value CmdReadAddress = (0x05, 0)"
| "command_value CmdReadStatus = (0x06, 0)"
| "command_value CmdRead8288Command = (0x07, 0)"
| "command_value CmdRead8288Control = (0x08, 0)"
| "command_value CmdReadDataBus = (0x09, 0)"
| "command_value CmdWriteDataBus = (0x0A, 1)"
| "command_value CmdFinalize = (0x0B, 0)"
| "command_value CmdBeginStore = (0x0C, 0)"
| "command_value CmdStore = (0x0D, 0)"
| "command_value CmdQueueLen = (0x0E, 0)"
| "command_value CmdQueueBytes = (0x0F, 0)"
| "command_value CmdWritePin = (0x10, 2)"
| "command_value CmdReadPin = (0x11, 1)"
| "command_value CmdGetProgramState = (0x12, 0)"
| "command_value CmdLastError = (0x13, 0)"
| "command_value CmdGetCycleStatus = (0x14, 0)"
| "command_value CmdInvalid = (0x15, 0)"

text \<open>The members in the order of the class body (what iterating the enum yields).\<close>

definition commands :: "Command list" where
  "commands =
     [CmdNone, CmdVersion, CmdReset, CmdLoad, CmdCycle, CmdReadAddress, CmdReadStatus,
      CmdRead8288Command, CmdRead8288Control, CmdReadDataBus, CmdWriteDataBus, CmdFinalize,
      CmdBeginStore, CmdStore, CmdQueueLen, CmdQueueBytes, CmdWritePin, CmdReadPin,
      CmdGetProgramState, CmdLastError, CmdGetCycleStatus, CmdInvalid]"

section \<open>Python values and exceptions\<close>

type_synonym byte = "8 word"

text \<open>The exceptions the modelled statements can raise.\<close>

datatype exn = AssertionError | TypeError | IndexError | OverflowError

text \<open>List indexing \<^verbatim>\<open>xs[i]\<close>: a negative index counts from the end, an index out of
  range raises \<^verbatim>\<open>IndexError\<close>.\<close>

definition getitem :: "'a list \<Rightarrow> int \<Rightarrow> exn + 'a" where
  "getitem xs i =
     (if 0 \<le> i \<and> i < int (length xs) then Inr (xs ! nat i)
      else if i < 0 \<and> - int (length xs) \<le> i then Inr (xs ! nat (int (length xs) + i))
      else Inl IndexError)"

datatype byteorder = Big | Little

text \<open>\<^verbatim>\<open>v.to_bytes(length, byteorder)\<close> for an unsigned conversion: \<^verbatim>\<open>OverflowError\<close>
  when \<^verbatim>\<open>v\<close> is negative or does not fit.\<close>

fun to_bytes_le :: "nat \<Rightarrow> int \<Rightarrow> byte list" where
  "to_bytes_le 0 v = []"
| "to_bytes_le (Suc k) v = word_of_int v # to_bytes_le k (v div 256)"

definition int_to_bytes :: "int \<Rightarrow> nat \<Rightarrow> byteorder \<Rightarrow> exn + byte list" where
  "int_to_bytes v len order =
     (if v < 0 \<or> 2 ^ (8 * len) \<le> v then Inl OverflowError
      else Inr (case order of Little \<Rightarrow> to_bytes_le len v | Big \<Rightarrow> rev (to_bytes_le len v)))"

text \<open>\<^verbatim>\<open>chr(c)\<close>, used on reply bytes only (values below 256).\<close>

definition py_chr :: "int \<Rightarrow> char" where
  "py_chr c = char_of c"

section \<open>The serial port and the clock\<close>

text \<open>
  The client owns one serial port \<^verbatim>\<open>self.fd\<close>. The state records the bytes the line will
  deliver to the host (\<open>rx\<close>, in arrival order) and every call the client makes on the port
  and on the clock, oldest first (\<open>calls\<close>). \<^verbatim>\<open>time.sleep(0.11)\<close> is recorded in
  milliseconds. \<open>FdFlush\<close> records the call \<^verbatim>\<open>self.fd.flush()\<close>: the port comes from
  pyserial (\<^verbatim>\<open>serial.serial_for_url\<close>), whose \<^verbatim>\<open>flush()\<close> waits until the bytes
  written have been transmitted and leaves the input as it is (the call that discards
  buffered input there is \<^verbatim>\<open>reset_input_buffer()\<close>).
  The diagnostic prints to stderr under \<^verbatim>\<open>self.debug\<close> change neither results nor the
  port and are left out.
\<close>

datatype call = FdWrite "byte list" | FdRead nat | TimeSleep nat | FdFlush

record client =
  rx :: "byte list"
  calls :: "call list"

definition fd_write :: "byte list \<Rightarrow> client \<Rightarrow> client" where
  "fd_write bs s = s\<lparr>calls := calls s @ [FdWrite bs]\<rparr>"

text \<open>\<^verbatim>\<open>self.fd.read(n)\<close> returns at most \<open>n\<close> bytes: fewer when the line delivers
  fewer before the timeout.\<close>

definition fd_read :: "nat \<Rightarrow> client \<Rightarrow> byte list \<times> client" where
  "fd_read n s = (take n (rx s), s\<lparr>rx := drop n (rx s), calls := calls s @ [FdRead n]\<rparr>)"

definition fd_flush :: "client \<Rightarrow> client" where
  "fd_flush s = s\<lparr>calls := calls s @ [FdFlush]\<rparr>"

definition time_sleep :: "nat \<Rightarrow> client \<Rightarrow> client" where
  "time_sleep ms s = s\<lparr>calls := calls s @ [TimeSleep ms]\<rparr>"

text \<open>All bytes written to the port so far, in order.\<close>

fun written_calls :: "call list \<Rightarrow> byte list" where
  "written_calls [] = []"
| "written_calls (FdWrite bs # cs) = bs @ written_calls cs"
| "written_calls (c # cs) = written_calls cs"

definition written :: "client \<Rightarrow> byte list" where
  "written s = written_calls (calls s)"

section \<open>Sending a command and receiving a reply\<close>

text \<open>
  \<^verbatim>\<open>_send_command\<close>: the opcode byte is written first, then the assertion on the payload
  is evaluated (\<^verbatim>\<open>len(None)\<close> raises \<^verbatim>\<open>TypeError\<close>), then the payload is written.
\<close>

definition send_command :: "Command \<Rightarrow> byte list option \<Rightarrow> client \<Rightarrow> (exn + bool) \<times> client" where
  "send_command command data s =
     (case int_to_bytes (fst (command_value command)) 1 Big of
        Inl e \<Rightarrow> (Inl e, s)
      | Inr opc \<Rightarrow>
          (let s1 = fd_write opc s in
           case data of
             None \<Rightarrow>
               if snd (command_value command) = 0 then (Inr True, s1) else (Inl TypeError, s1)
           | Some d \<Rightarrow>
               if int (length d) = snd (command_value command) then (Inr True, fd_write d s1)
               else (Inl AssertionError, s1)))"

text \<open>
  \<^verbatim>\<open>_receive_n\<close>: the bytes read become a list of integers; its last element decides.
\<close>

definition receive_n :: "nat \<Rightarrow> client \<Rightarrow> (exn + int list option) \<times> client" where
  "receive_n n s =
     (let (bs, s1) = fd_read n s; rc = map uint bs in
      case getitem rc (- 1) of
        Inl e \<Rightarrow> (Inl e, s1)
      | Inr st \<Rightarrow>
          if st = 0x01 then (Inr (Some rc), s1)
          else if st = 0x00 then (Inr None, s1)
          else (Inr None, fd_flush (time_sleep 110 s1)))"

section \<open>The typed operations\<close>

definition cmd_version :: "client \<Rightarrow> (exn + (string \<times> int) option) \<times> client" where
  "cmd_version s =
     (case send_command CmdVersion None s of
        (Inl e, s1) \<Rightarrow> (Inl e, s1)
      | (Inr ok, s1) \<Rightarrow>
          if ok = False then (Inr None, s1)
          else (case receive_n 9 s1 of
                  (Inl e, s2) \<Rightarrow> (Inl e, s2)
                | (Inr None, s2) \<Rightarrow> (Inr None, s2)
                | (Inr (Some reply), s2) \<Rightarrow>
                    (case getitem reply 7 of
                       Inl e \<Rightarrow> (Inl e, s2)
                     | Inr v \<Rightarrow> (Inr (Some (map py_chr (take 7 reply), v)), s2))))"

text \<open>\<^verbatim>\<open>self._receive_n(1) == [ 0x01 ]\<close>: the comparison of \<^verbatim>\<open>None\<close> with a list is
  \<^verbatim>\<open>False\<close>.\<close>

definition receive_ok :: "client \<Rightarrow> (exn + bool option) \<times> client" where
  "receive_ok s =
     (case receive_n 1 s of
        (Inl e, s2) \<Rightarrow> (Inl e, s2)
      | (Inr r, s2) \<Rightarrow> (Inr (Some (r = Some [0x01])), s2))"

definition cmd_reset :: "client \<Rightarrow> (exn + bool option) \<times> client" where
  "cmd_reset s =
     (case send_command CmdReset None s of
        (Inl e, s1) \<Rightarrow> (Inl e, s1)
      | (Inr ok, s1) \<Rightarrow> if ok = False then (Inr None, s1) else receive_ok s1)"

text \<open>The payload of \<^verbatim>\<open>cmd_load\<close>: each register in turn as two little-endian bytes,
  appended to \<^verbatim>\<open>out\<close>.\<close>

fun load_out :: "int list \<Rightarrow> byte list \<Rightarrow> exn + byte list" where
  "load_out [] out = Inr out"
| "load_out (r # rs) out =
     (case int_to_bytes r 2 Little of
        Inl e \<Rightarrow> Inl e
      | Inr b \<Rightarrow> load_out rs (out @ b))"

definition cmd_load ::
  "int \<Rightarrow> int \<Rightarrow> int \<Rightarrow> int \<Rightarrow> int \<Rightarrow> int \<Rightarrow> int \<Rightarrow> int \<Rightarrow> int \<Rightarrow> int \<Rightarrow> int \<Rightarrow> int \<Rightarrow> int \<Rightarrow> int \<Rightarrow>
   client \<Rightarrow> (exn + bool option) \<times> client" where
  "cmd_load AX BX CX DX SS SP FLAGS IP CS DS ES BP SI DI s =
     (case load_out [AX, BX, CX, DX, SS, SP, FLAGS, IP, CS, DS, ES, BP, SI, DI] [] of
        Inl e \<Rightarrow> (Inl e, s)
      | Inr out \<Rightarrow>
          if length out \<noteq> 28 then (Inl AssertionError, s)
          else (case send_command CmdLoad (Some out) s of
                  (Inl e, s1) \<Rightarrow> (Inl e, s1)
                | (Inr ok, s1) \<Rightarrow> if ok = False then (Inr None, s1) else receive_ok s1))"

definition cmd_cycle :: "client \<Rightarrow> (exn + bool option) \<times> client" where
  "cmd_cycle s =
     (case send_command CmdCycle None s of
        (Inl e, s1) \<Rightarrow> (Inl e, s1)
      | (Inr ok, s1) \<Rightarrow> if ok = False then (Inr None, s1) else receive_ok s1)"

definition cmd_read_address :: "client \<Rightarrow> (exn + int option) \<times> client" where
  "cmd_read_address s =
     (case send_command CmdReadAddress None s of
        (Inl e, s1) \<Rightarrow> (Inl e, s1)
      | (Inr ok, s1) \<Rightarrow>
          if ok = False then (Inr None, s1)
          else (case receive_n 4 s1 of
                  (Inl e, s2) \<Rightarrow> (Inl e, s2)
                | (Inr None, s2) \<Rightarrow> (Inr None, s2)
                | (Inr (Some rc), s2) \<Rightarrow>
                    (case getitem rc 0 of
                       Inl e \<Rightarrow> (Inl e, s2)
                     | Inr b0 \<Rightarrow>
                    (case getitem rc 1 of
                       Inl e \<Rightarrow> (Inl e, s2)
                     | Inr b1 \<Rightarrow>
                    (case getitem rc 2 of
                       Inl e \<Rightarrow> (Inl e, s2)
                     | Inr b2 \<Rightarrow>
                         (Inr (Some ((b0 OR push_bit 8 b1) OR push_bit 16 b2)), s2))))))"

text \<open>\<^verbatim>\<open>cmd_read_status\<close>, \<^verbatim>\<open>cmd_read_8288_command\<close> and
  \<^verbatim>\<open>cmd_read_8288_control\<close> differ in the command only.\<close>

definition read_byte :: "Command \<Rightarrow> client \<Rightarrow> (exn + int option) \<times> client" where
  "read_byte command s =
     (case send_command command None s of
        (Inl e, s1) \<Rightarrow> (Inl e, s1)
      | (Inr ok, s1) \<Rightarrow>
          if ok = False then (Inr None, s1)
          else (case receive_n 2 s1 of
                  (Inl e, s2) \<Rightarrow> (Inl e, s2)
                | (Inr None, s2) \<Rightarrow> (Inr None, s2)
                | (Inr (Some rc), s2) \<Rightarrow>
                    (case getitem rc 0 of
                       Inl e \<Rightarrow> (Inl e, s2)
                     | Inr b0 \<Rightarrow> (Inr (Some b0), s2))))"

definition cmd_read_status :: "client \<Rightarrow> (exn + int option) \<times> client" where
  "cmd_read_status = read_byte CmdReadStatus"

definition cmd_read_8288_command :: "client \<Rightarrow> (exn + int option) \<times> client" where
  "cmd_read_8288_command = read_byte CmdRead8288Command"

definition cmd_read_8288_control :: "client \<Rightarrow> (exn + int option) \<times> client" where
  "cmd_read_8288_control = read_byte CmdRead8288Control"

text \<open>The loop of \<^verbatim>\<open>cmd_store\<close> over \<^verbatim>\<open>range(0, 14)\<close>: the high byte is indexed
  first.\<close>

fun store_loop :: "int list \<Rightarrow> nat list \<Rightarrow> int list \<Rightarrow> exn + int list" where
  "store_loop rc [] out = Inr out"
| "store_loop rc (i # is) out =
     (case getitem rc (int i * 2 + 1) of
        Inl e \<Rightarrow> Inl e
      | Inr hi \<Rightarrow>
          (case getitem rc (int i * 2 + 0) of
             Inl e \<Rightarrow> Inl e
           | Inr lo \<Rightarrow> store_loop rc is (out @ [push_bit 8 hi OR lo])))"

definition cmd_store :: "client \<Rightarrow> (exn + int list option) \<times> client" where
  "cmd_store s =
     (case send_command CmdStore None s of
        (Inl e, s1) \<Rightarrow> (Inl e, s1)
      | (Inr ok, s1) \<Rightarrow>
          if ok = False then (Inr None, s1)
          else (case receive_n 29 s1 of
                  (Inl e, s2) \<Rightarrow> (Inl e, s2)
                | (Inr None, s2) \<Rightarrow> (Inr None, s2)
                | (Inr (Some rc), s2) \<Rightarrow>
                    (case store_loop rc [0..<14] [] of
                       Inl e \<Rightarrow> (Inl e, s2)
                     | Inr out \<Rightarrow> (Inr (Some out), s2))))"

section \<open>Basic facts\<close>

lemma UNIV_commands: "(UNIV :: Command set) = set commands"
proof -
  have "c \<in> set commands" for c
    by (cases c) (simp_all add: commands_def)
  then show ?thesis by auto
qed

lemma distinct_commands: "distinct commands"
  by (simp add: commands_def)

lemma length_commands: "length commands = 22"
  by (simp add: commands_def)

lemma card_Command: "card (UNIV :: Command set) = 22"
  using distinct_card [OF distinct_commands] by (simp add: UNIV_commands length_commands)

lemma int_to_bytes_1:
  "int_to_bytes v (Suc 0) order =
     (if v < 0 \<or> 256 \<le> v then Inl OverflowError else Inr [word_of_int v])"
  by (cases order) (simp_all add: int_to_bytes_def)

lemma int_to_bytes_2:
  "int_to_bytes v 2 Little =
     (if v < 0 \<or> 65536 \<le> v then Inl OverflowError
      else Inr [word_of_int v, word_of_int (v div 256)])"
  by (simp add: int_to_bytes_def numeral_2_eq_2)

lemma opcode_range: "0 \<le> fst (command_value c) \<and> fst (command_value c) < 256"
  by (cases c) simp_all

lemma getitem_last: "getitem xs (- 1) = (if xs = [] then Inl IndexError else Inr (last xs))"
  by (cases xs rule: rev_cases) (simp_all add: getitem_def)

lemma getitem_nat:
  "getitem xs (int k) = (if k < length xs then Inr (xs ! k) else Inl IndexError)"
  by (simp add: getitem_def)

text \<open>What \<open>send_command\<close> does, case by case.\<close>

lemma send_command_eq:
  "send_command c d s =
     (case d of
        None \<Rightarrow>
          (if snd (command_value c) = 0 then Inr True else Inl TypeError,
           s\<lparr>calls := calls s @ [FdWrite [word_of_int (fst (command_value c))]]\<rparr>)
      | Some p \<Rightarrow>
          if int (length p) = snd (command_value c)
          then (Inr True,
                s\<lparr>calls := calls s @ [FdWrite [word_of_int (fst (command_value c))], FdWrite p]\<rparr>)
          else (Inl AssertionError,
                s\<lparr>calls := calls s @ [FdWrite [word_of_int (fst (command_value c))]]\<rparr>))"
  using opcode_range [of c]
  by (simp add: send_command_def int_to_bytes_1 fd_write_def split: option.split)

text \<open>What \<open>receive_n\<close> does, case by case.\<close>

lemma receive_n_eq:
  "receive_n n s =
     (if take n (rx s) = [] then
        (Inl IndexError, s\<lparr>rx := drop n (rx s), calls := calls s @ [FdRead n]\<rparr>)
      else if last (take n (rx s)) = 0x01 then
        (Inr (Some (map uint (take n (rx s)))),
         s\<lparr>rx := drop n (rx s), calls := calls s @ [FdRead n]\<rparr>)
      else if last (take n (rx s)) = 0x00 then
        (Inr None, s\<lparr>rx := drop n (rx s), calls := calls s @ [FdRead n]\<rparr>)
      else
        (Inr None,
         s\<lparr>rx := drop n (rx s), calls := calls s @ [FdRead n, TimeSleep 110, FdFlush]\<rparr>))"
proof -
  have l: "last (map uint bs) = uint (last bs)" if "bs \<noteq> []" for bs :: "byte list"
    using that by (simp add: last_map)
  have u1: "(uint b = 1) = (b = 1)" for b :: byte
    by (metis uint_1_eq word_uint_eq_iff)
  have u0: "(uint b = 0) = (b = 0)" for b :: byte
    by (simp add: uint_0_iff)
  show ?thesis
    by (simp add: receive_n_def fd_read_def getitem_last l u1 u0 fd_flush_def time_sleep_def
        Let_def)
qed

lemma written_calls_append: "written_calls (xs @ ys) = written_calls xs @ written_calls ys"
  by (induction xs rule: written_calls.induct) simp_all

text \<open>Two little-endian bytes, read back as \<^verbatim>\<open>(hi << 8) | lo\<close>.\<close>

lemma le2_decode:
  assumes "0 \<le> v" "v \<le> 0xFFFF"
  shows "push_bit 8 (uint (word_of_int (v div 256) :: byte)) OR uint (word_of_int v :: byte) = v"
proof -
  have v: "v = take_bit 16 v"
    using assms by (simp add: take_bit_int_eq_self)
  have "push_bit 8 (take_bit 8 (drop_bit 8 v)) OR take_bit 8 v = take_bit 16 v"
    by (rule bit_eqI) (auto simp: bit_simps)
  then show ?thesis
    using v by (simp add: uint_word_of_int_eq drop_bit_eq_div)
qed

section \<open>The command table: claim C4\<close>

text \<open>
  Claim C4 says the table has exactly 21 commands. The class body declares 22 members
  (\<open>CmdNone\<close> with opcode 0x00 up to \<open>CmdInvalid\<close> with opcode 0x15), so the count
  of 21 fails.
\<close>

theorem command_count_not_21:
  "length commands \<noteq> 21 \<and> card (UNIV :: Command set) \<noteq> 21"
  by (simp add: card_Command length_commands)

text \<open>
  Claim C4, amended: the command table is a closed enumeration of exactly 22 commands,
  the sentinel \<open>CmdInvalid\<close> among them; the opcodes are pairwise different and lie in
  0x00 to 0x15; every outbound payload length is 0, 1, 2 or 28.
\<close>

theorem command_table_22:
  "length commands = 22 \<and> distinct commands \<and> set commands = UNIV
   \<and> card (UNIV :: Command set) = 22
   \<and> CmdInvalid \<in> set commands
   \<and> distinct (map (\<lambda>c. fst (command_value c)) commands)
   \<and> (\<forall>c. 0x00 \<le> fst (command_value c) \<and> fst (command_value c) \<le> 0x15)
   \<and> (\<forall>c. snd (command_value c) \<in> {0, 1, 2, 28})"
proof -
  have r: "0x00 \<le> fst (command_value c) \<and> fst (command_value c) \<le> 0x15" for c
    by (cases c) simp_all
  have l: "snd (command_value c) \<in> {0, 1, 2, 28}" for c
    by (cases c) simp_all
  have d: "distinct (map (\<lambda>c. fst (command_value c)) commands)"
    by (simp add: commands_def)
  show ?thesis using r l d
    by (simp add: length_commands distinct_commands card_Command UNIV_commands [symmetric])
qed

section \<open>GetVersion: claim C5\<close>

text \<open>
  Claim C5: \<open>cmd_version\<close>, when the port delivers the reply bytes
  0x41 0x72 0x64 0x75 0x69 0x38 0x38 0x07 0x01, returns the name "Ardui88" (the first
  seven bytes as characters) and the version number 7 (the eighth byte).
\<close>

theorem cmd_version_Ardui88:
  "fst (cmd_version \<lparr>rx = [0x41, 0x72, 0x64, 0x75, 0x69, 0x38, 0x38, 0x07, 0x01], calls = []\<rparr>)
   = Inr (Some (''Ardui88'', 7))"
  by (simp add: cmd_version_def send_command_eq receive_n_eq getitem_def py_chr_def char_of_def)

section \<open>Sending: claims C1 and C9\<close>

text \<open>
  Claim C1 says that a payload of the wrong length is rejected before any byte is written.
  In \<open>send_command\<close> the opcode byte is written before the assertion on the payload
  length is evaluated: for \<open>CmdLoad\<close> (28 payload bytes declared) with an empty payload
  the call ends in \<open>AssertionError\<close>, and the opcode byte 0x03 is on the wire by then.
\<close>

theorem send_command_opcode_before_assert:
  "send_command CmdLoad (Some []) \<lparr>rx = [], calls = []\<rparr>
     = (Inl AssertionError, \<lparr>rx = [], calls = [FdWrite [0x03]]\<rparr>)
   \<and> written (snd (send_command CmdLoad (Some []) \<lparr>rx = [], calls = []\<rparr>)) = [0x03]"
  by (simp add: send_command_eq written_def)

text \<open>
  Claim C9: \<open>send_command\<close> never returns \<open>False\<close>: it returns \<open>True\<close> or raises.
  So the branch of the typed operations that returns \<open>None\<close> before the reply is read is
  never taken; \<open>cmd_reset\<close>, \<open>cmd_cycle\<close> and \<open>cmd_load\<close>, which return
  \<open>None\<close> in that branch only, never return \<open>None\<close>.
\<close>

theorem send_command_never_False:
  "fst (send_command c d s) \<noteq> Inr False
   \<and> fst (cmd_reset s) \<noteq> Inr None
   \<and> fst (cmd_cycle s) \<noteq> Inr None
   \<and> fst (cmd_load AX BX CX DX SS SP FLAGS IP CS DS ES BP SI DI s) \<noteq> Inr None"
proof -
  have a: "fst (send_command c d s) \<noteq> Inr False" for c d s
    by (simp add: send_command_eq split: option.split)
  have b: "fst (receive_ok t) \<noteq> Inr None" for t
    by (simp add: receive_ok_def split: prod.split sum.split)
  have c: "fst (case send_command c d s of
                  (Inl e, s1) \<Rightarrow> (Inl e, s1)
                | (Inr ok, s1) \<Rightarrow> if ok = False then (Inr None, s1) else receive_ok s1)
           \<noteq> Inr None" for c d s
    using a [of c d s] b by (auto split: prod.split sum.split)
  show ?thesis
    using a c by (simp add: cmd_reset_def cmd_cycle_def cmd_load_def split: sum.split)
qed

section \<open>Receiving: claims C2, C7, C8 and C10\<close>

text \<open>
  Claim C2 says that the rejected reply (last byte 0x00) and the out-of-sync reply (any
  other last byte but 0x01) reach the caller as distinguishable results, and that success
  returns the bytes before the status byte. \<open>receive_n\<close> returns \<open>None\<close> for both
  failures, \<open>cmd_reset\<close> returns \<open>False\<close> for both, and a successful reply is returned
  whole, status byte included.
\<close>

theorem rejected_and_out_of_sync_same_result:
  "fst (receive_n 1 \<lparr>rx = [0x00], calls = []\<rparr>) = Inr None
   \<and> fst (receive_n 1 \<lparr>rx = [0x7F], calls = []\<rparr>) = Inr None
   \<and> fst (cmd_reset \<lparr>rx = [0x00], calls = []\<rparr>) = fst (cmd_reset \<lparr>rx = [0x7F], calls = []\<rparr>)
   \<and> fst (receive_n 2 \<lparr>rx = [0x07, 0x01], calls = []\<rparr>) = Inr (Some [0x07, 0x01])"
  by (simp add: receive_n_eq cmd_reset_def receive_ok_def send_command_eq)

text \<open>
  Claim C2, amended: for every raw reply of the expected length \<open>n > 0\<close>,
  \<open>receive_n\<close> decides on the final byte: 0x01 returns the whole reply, status byte
  included; 0x00 and every other value return the same result \<open>None\<close>. The bytes after
  the reply stay on the line.
\<close>

theorem receive_n_dispatch:
  assumes "rx s = reply @ rest" and "length reply = n" and "0 < n"
  shows "fst (receive_n n s) =
           (if last reply = 0x01 then Inr (Some (map uint reply)) else Inr None)
         \<and> rx (snd (receive_n n s)) = rest"
  using assms by (auto simp add: receive_n_eq)

theorem receive_n_dispatch_witness:
  "fst (receive_n 4 \<lparr>rx = [0x34, 0x12, 0x00, 0x01, 0xAA], calls = []\<rparr>)
     = Inr (Some [0x34, 0x12, 0x00, 0x01])
   \<and> rx (snd (receive_n 4 \<lparr>rx = [0x34, 0x12, 0x00, 0x01, 0xAA], calls = []\<rparr>)) = [0xAA]"
  using receive_n_dispatch [of "\<lparr>rx = [0x34, 0x12, 0x00, 0x01, 0xAA], calls = []\<rparr>"
      "[0x34, 0x12, 0x00, 0x01]" "[0xAA]" 4]
  by simp

text \<open>
  What the out-of-sync branch does: whenever the last byte read is neither 0x00 nor 0x01,
  \<open>receive_n\<close> sleeps for 110 ms, then calls the flush of the serial port, and returns
  the failure \<open>None\<close>; it writes nothing to the port, so the command is not sent again.
\<close>

lemma receive_n_out_of_sync:
  assumes "take n (rx s) \<noteq> []"
    and "last (take n (rx s)) \<noteq> 0x00" and "last (take n (rx s)) \<noteq> 0x01"
  shows "receive_n n s =
           (Inr None,
            s\<lparr>rx := drop n (rx s), calls := calls s @ [FdRead n, TimeSleep 110, FdFlush]\<rparr>)
         \<and> written (snd (receive_n n s)) = written s"
  using assms by (simp add: receive_n_eq written_def written_calls_append)

text \<open>
  Claim C7 says that after an out-of-sync status byte the engine waits, then discards the
  input buffered on the port, and returns the failure without a retry. The delay, the
  failure and the absence of a retry are there, but the call made is the port's
  \<^verbatim>\<open>flush()\<close>, which discards no input: a stale byte 0xAA that arrived behind the
  status byte 0x7F is still on the port after \<open>cmd_reset\<close> has failed, and the next
  \<open>cmd_reset\<close> reads it in place of its own reply 0x01.
\<close>

theorem out_of_sync_keeps_input:
  "cmd_reset \<lparr>rx = [0x7F, 0xAA], calls = []\<rparr>
     = (Inr (Some False),
        \<lparr>rx = [0xAA], calls = [FdWrite [0x02], FdRead 1, TimeSleep 110, FdFlush]\<rparr>)
   \<and> cmd_reset (snd (cmd_reset \<lparr>rx = [0x7F, 0xAA, 0x01], calls = []\<rparr>))
     = (Inr (Some False),
        \<lparr>rx = [0x01],
         calls = [FdWrite [0x02], FdRead 1, TimeSleep 110, FdFlush,
                  FdWrite [0x02], FdRead 1, TimeSleep 110, FdFlush]\<rparr>)"
  by (simp add: cmd_reset_def receive_ok_def send_command_eq receive_n_eq)

text \<open>
  Claim C8 says that a read of fewer than \<open>n\<close> bytes fails with a timeout error.
  \<open>receive_n\<close> does not compare the number of bytes read with \<open>n\<close>: when one byte
  0x01 arrives where four are expected, that byte is taken as the status byte and the
  short list is returned as a successful reply.
\<close>

theorem short_read_taken_as_reply:
  "receive_n 4 \<lparr>rx = [0x01], calls = []\<rparr>
     = (Inr (Some [0x01]), \<lparr>rx = [], calls = [FdRead 4]\<rparr>)"
  by (simp add: receive_n_eq)

text \<open>
  Claim C8, amended: for every expected length \<open>n\<close>, when the port yields fewer than
  \<open>n\<close> bytes but at least one, \<open>receive_n\<close> treats the short data as a reply: the last
  byte received is the status byte, 0x01 returns the bytes received and any other value
  returns \<open>None\<close>.
\<close>

theorem receive_n_short_read:
  assumes "length (rx s) < n" and "rx s \<noteq> []"
  shows "fst (receive_n n s) =
           (if last (rx s) = 0x01 then Inr (Some (map uint (rx s))) else Inr None)"
  using assms by (simp add: receive_n_eq)

theorem receive_n_short_read_witness:
  "fst (receive_n 4 \<lparr>rx = [0x34, 0x00], calls = []\<rparr>) = Inr None
   \<and> fst (receive_n 29 \<lparr>rx = [0x34, 0x01], calls = []\<rparr>) = Inr (Some [0x34, 0x01])"
  using receive_n_short_read [of "\<lparr>rx = [0x34, 0x00], calls = []\<rparr>" 4]
    receive_n_short_read [of "\<lparr>rx = [0x34, 0x01], calls = []\<rparr>" 29]
  by simp

text \<open>
  Claim C10: when the port yields no byte at all, \<open>receive_n\<close> indexes the last element
  of an empty list and raises \<open>IndexError\<close>; the exception reaches the caller of the
  typed operation (here \<open>cmd_reset\<close>) in place of a result.
\<close>

theorem receive_n_empty_raises:
  "receive_n n (s\<lparr>rx := []\<rparr>) = (Inl IndexError, s\<lparr>rx := [], calls := calls s @ [FdRead n]\<rparr>)
   \<and> fst (cmd_reset (s\<lparr>rx := []\<rparr>)) = Inl IndexError"
  by (simp add: receive_n_eq cmd_reset_def receive_ok_def send_command_eq)

section \<open>ReadAddress: claim C6\<close>

text \<open>
  Claim C6: on a four-byte reply with status 0x01, \<open>cmd_read_address\<close> returns
  byte0 | byte1<<8 | byte2<<16, an unsigned value below 2^24; on the reply bytes
  0x34 0x12 0x00 0x01 it returns 0x001234.
\<close>

theorem cmd_read_address_24bit:
  "fst (cmd_read_address (s\<lparr>rx := [b0, b1, b2, 0x01] @ rest\<rparr>))
     = Inr (Some ((uint b0 OR push_bit 8 (uint b1)) OR push_bit 16 (uint b2)))
   \<and> (uint b0 OR push_bit 8 (uint b1)) OR push_bit 16 (uint b2)
     = uint b0 + 256 * uint b1 + 65536 * uint b2
   \<and> 0 \<le> uint b0 + 256 * uint b1 + 65536 * uint b2
   \<and> uint b0 + 256 * uint b1 + 65536 * uint b2 < 2 ^ 24
   \<and> fst (cmd_read_address \<lparr>rx = [0x34, 0x12, 0x00, 0x01], calls = []\<rparr>) = Inr (Some 0x001234)"
proof -
  have 1: "fst (cmd_read_address (s\<lparr>rx := [b0, b1, b2, 0x01] @ rest\<rparr>))
     = Inr (Some ((uint b0 OR push_bit 8 (uint b1)) OR push_bit 16 (uint b2)))"
    by (simp add: cmd_read_address_def send_command_eq receive_n_eq getitem_def)
  have 5: "fst (cmd_read_address \<lparr>rx = [0x34, 0x12, 0x00, 0x01], calls = []\<rparr>)
     = Inr (Some 0x001234)"
    by (simp add: cmd_read_address_def send_command_eq receive_n_eq getitem_def)
  have b: "uint b0 < 256" "uint b1 < 256" "uint b2 < 256"
    using uint_bounded [of b0] uint_bounded [of b1] uint_bounded [of b2] by simp_all
  have t: "uint x = take_bit 8 (uint x)" for x :: byte
    by (simp add: take_bit_int_eq_self uint_bounded [of x, simplified])
  have d1: "uint b0 AND push_bit 8 (uint b1) = 0"
    by (subst t [of b0]) (auto simp: bit_eq_iff bit_simps)
  have d2: "(uint b0 OR push_bit 8 (uint b1)) AND push_bit 16 (uint b2) = 0"
    by (subst t [of b0], subst t [of b1]) (auto simp: bit_eq_iff bit_simps)
  have 2: "(uint b0 OR push_bit 8 (uint b1)) OR push_bit 16 (uint b2)
     = uint b0 + 256 * uint b1 + 65536 * uint b2"
    using disjunctive_add_eq_or [OF d1] disjunctive_add_eq_or [OF d2]
    by (simp add: push_bit_eq_mult)
  show ?thesis using 1 2 5 b by simp
qed

section \<open>LoadRegisters and StoreRegisters: claim C3\<close>

lemma upt_14: "[0..<14] = [0, 1, 2, 3, 4, 5, 6, 7, 8, 9, 10, 11, 12, 13]"
  by (simp add: upt_rec)

lemma getitem_num [simp]:
  "getitem xs (numeral k) = (if numeral k < length xs then Inr (xs ! numeral k) else Inl IndexError)"
  "getitem xs 0 = (if 0 < length xs then Inr (xs ! 0) else Inl IndexError)"
  "getitem xs 1 = (if 1 < length xs then Inr (xs ! 1) else Inl IndexError)"
  using getitem_nat [of xs "numeral k"] getitem_nat [of xs 0] getitem_nat [of xs 1]
  by simp_all

text \<open>
  Claim C3: for 14 register values in 0x0000 to 0xFFFF, the 28 payload bytes that
  \<open>cmd_load\<close> writes after the opcode (each value as two little-endian bytes, in the
  order AX, BX, CX, DX, SS, SP, FLAGS, IP, CS, DS, ES, BP, SI, DI), delivered to
  \<open>cmd_store\<close> as a reply with status 0x01, are decoded to the same 14 values.
\<close>

theorem load_store_round_trip:
  assumes "\<forall>r \<in> set [AX, BX, CX, DX, SS, SP, FLAGS, IP, CS, DS, ES, BP, SI, DI].
             0x0000 \<le> r \<and> r \<le> 0xFFFF"
  shows "\<exists>out. written (snd (cmd_load AX BX CX DX SS SP FLAGS IP CS DS ES BP SI DI s))
                 = written s @ 0x03 # out
           \<and> length out = 28
           \<and> fst (cmd_store (t\<lparr>rx := out @ [0x01]\<rparr>))
               = Inr (Some [AX, BX, CX, DX, SS, SP, FLAGS, IP, CS, DS, ES, BP, SI, DI])"
proof -
  let ?le = "\<lambda>r :: int. [word_of_int r, word_of_int (r div 256) :: byte]"
  let ?out = "?le AX @ ?le BX @ ?le CX @ ?le DX @ ?le SS @ ?le SP @ ?le FLAGS @ ?le IP
              @ ?le CS @ ?le DS @ ?le ES @ ?le BP @ ?le SI @ ?le DI"
  have enc: "load_out [AX, BX, CX, DX, SS, SP, FLAGS, IP, CS, DS, ES, BP, SI, DI] [] = Inr ?out"
    using assms by (simp add: int_to_bytes_2)
  have w: "written (snd (receive_ok u)) = written u" for u
    by (simp add: receive_ok_def receive_n_eq written_def written_calls_append)
  have 1: "written (snd (cmd_load AX BX CX DX SS SP FLAGS IP CS DS ES BP SI DI s))
                 = written s @ 0x03 # ?out"
    unfolding cmd_load_def enc
    by (simp add: send_command_eq w) (simp add: written_def written_calls_append)
  have dec: "store_loop (map uint (?out @ [0x01])) [0..<14] []
      = Inr [AX, BX, CX, DX, SS, SP, FLAGS, IP, CS, DS, ES, BP, SI, DI]"
    using assms unfolding upt_14 by (simp add: le2_decode)
  have 3: "fst (cmd_store (t\<lparr>rx := ?out @ [0x01]\<rparr>))
               = Inr (Some [AX, BX, CX, DX, SS, SP, FLAGS, IP, CS, DS, ES, BP, SI, DI])"
    using dec by (simp add: cmd_store_def send_command_eq receive_n_eq)
  have 2: "length ?out = 28" by simp
  show ?thesis using 1 2 3 by blast
qed

theorem load_store_round_trip_witness:
  "\<exists>out. written (snd (cmd_load 0x1234 0xFFFF 0x0000 0x0100 5 6 7 8 9 10 11 12 13 0x8000
                            \<lparr>rx = [0x01], calls = []\<rparr>))
                 = 0x03 # out
           \<and> length out = 28
           \<and> fst (cmd_store \<lparr>rx = out @ [0x01], calls = []\<rparr>)
               = Inr (Some [0x1234, 0xFFFF, 0x0000, 0x0100, 5, 6, 7, 8, 9, 10, 11, 12, 13, 0x8000])"
  using load_store_round_trip [of "0x1234" "0xFFFF" "0x0000" "0x0100" 5 6 7 8 9 10 11 12 13 "0x8000"
      "\<lparr>rx = [0x01], calls = []\<rparr>" "\<lparr>rx = [], calls = []\<rparr>"]
  by (simp add: written_def)

end
